theory Spec2Isabelle
  imports Main
begin

section \<open>Request values and documents\<close>

text \<open>
  Document ids (\<open>_id\<close>, \<open>req.params.id\<close>, \<open>req.payload.id\<close>) are compared by the
  handlers through \<open>toString()\<close>, that is by equality; they are naturals here. Time is
  \<open>Date.now()\<close>, milliseconds as an integer.
\<close>

type_synonym oid = nat

text \<open>A scalar JSON value as a request body carries it, and JavaScript's truthiness.\<close>

datatype jsval = JUndefined | JNull | JBool bool | JNum int | JStr string

fun truthy :: "jsval \<Rightarrow> bool" where
  "truthy JUndefined = False"
| "truthy JNull = False"
| "truthy (JBool b) = b"
| "truthy (JNum n) = (n \<noteq> 0)"
| "truthy (JStr s) = (s \<noteq> [])"

text \<open>
  A text field of a body is a JSON string or absent. \<open>!field\<close> holds for an absent
  field and for the empty string.
\<close>

fun present :: "string option \<Rightarrow> bool" where
  "present None = False"
| "present (Some s) = (s \<noteq> [])"

text \<open>
  The user document. \<open>followers\<close> is the path the count query of \<open>follow\<close> and
  \<open>unfollow\<close> reads; \<open>following\<close> and \<open>favorites\<close> are the sets the spec lists.
\<close>

record user =
  uid :: oid
  username :: string
  email :: string
  first_name :: string
  family_name :: string
  password_hash :: string
  user_type :: string
  suspended :: bool
  suspension_timeline :: "int option"
  follower_count :: nat
  following :: "oid list"
  followers :: "oid list"
  favorites :: "oid list"

text \<open>\<open>req.body.user\<close> of signup and login.\<close>

record user_body =
  b_username :: "string option"
  b_password :: "string option"
  b_email :: "string option"
  b_first_name :: "string option"
  b_family_name :: "string option"
  give_admin_priviledges :: jsval
  give_mod_priviledges :: jsval

record review =
  rid :: oid
  content :: string
  tags :: "string list"
  review_author :: oid
  book :: oid
  favorite_count :: nat
  createdAt :: int

record store =
  users :: "user list"
  reviews :: "review list"

datatype error = TypeError | DuplicateKey | HeadersSent | AuthFailure
  | AlreadyFollowing | NotFollowing

datatype payload =
    ErrorMessage string
  | UserAuthJson user
  | UserPairJson user user
  | ReviewJson review
  | ReviewListJson "review list" nat
  | Info

text \<open>
  What a handler does with \<open>res\<close> and \<open>next\<close>: \<open>res.status(n).json(p)\<close> (200 for a
  bare \<open>res.json\<close>), \<open>res.sendStatus(n)\<close>, or \<open>next(err)\<close>.
\<close>

datatype reply = Json nat payload | SendStatus nat | Next error

fun status_of :: "reply \<Rightarrow> nat option" where
  "status_of (Json n p) = Some n"
| "status_of (SendStatus n) = Some n"
| "status_of (Next e) = None"

section \<open>The store's queries\<close>

definition findById :: "user list \<Rightarrow> oid \<Rightarrow> user option" where
  "findById us i = find (\<lambda>u. uid u = i) us"

text \<open>Writing some paths of the document with a given \<open>_id\<close>, the others kept.\<close>

definition update_user :: "oid \<Rightarrow> (user \<Rightarrow> user) \<Rightarrow> user list \<Rightarrow> user list" where
  "update_user i f us = map (\<lambda>u. if uid u = i then f u else u) us"

section \<open>The user service\<close>

subsection \<open>Signup\<close>

definition required_present :: "user_body \<Rightarrow> bool" where
  "required_present b =
     (present (b_username b) \<and> present (b_password b) \<and> present (b_email b)
      \<and> present (b_first_name b) \<and> present (b_family_name b))"

fun field_text :: "string option \<Rightarrow> string" where
  "field_text None = []"
| "field_text (Some s) = s"

text \<open>
  Modelled from the spec: the \<open>User\<close> model's constructor and \<open>setPassword\<close> are not
  among the sources. The constructor fills the four given paths and the schema's defaults
  (the default \<open>user_type\<close> is the parameter \<open>dflt\<close>, the fresh \<open>_id\<close> the parameter
  \<open>nid\<close>); \<open>setPassword\<close> stores a hash of the password (the parameter \<open>hash\<close>).
\<close>

definition new_User :: "oid \<Rightarrow> string \<Rightarrow> user_body \<Rightarrow> user" where
  "new_User nid dflt b =
     \<lparr> uid = nid,
       username = field_text (b_username b),
       email = field_text (b_email b),
       first_name = field_text (b_first_name b),
       family_name = field_text (b_family_name b),
       password_hash = [],
       user_type = dflt,
       suspended = False,
       suspension_timeline = None,
       follower_count = 0,
       following = [],
       followers = [],
       favorites = [] \<rparr>"

definition setPassword :: "(string \<Rightarrow> string) \<Rightarrow> string \<Rightarrow> user \<Rightarrow> user" where
  "setPassword hash pw u = u\<lparr>password_hash := hash pw\<rparr>"

text \<open>
  The document \<open>signup\<close> hands to \<open>save\<close>: lines 32 to 47 of the handler. The two
  flags are tested one after the other, the moderator flag last.
\<close>

definition signup_user :: "oid \<Rightarrow> string \<Rightarrow> (string \<Rightarrow> string) \<Rightarrow> user_body \<Rightarrow> user" where
  "signup_user nid dflt hash b =
     (let user = new_User nid dflt b;
          user = setPassword hash (field_text (b_password b)) user;
          user = (if truthy (give_admin_priviledges b)
                  then user\<lparr>user_type := ''admin''\<rparr> else user);
          user = (if truthy (give_mod_priviledges b)
                  then user\<lparr>user_type := ''moderator''\<rparr> else user)
      in user)"

text \<open>
  Modelled from the spec: \<open>save\<close> belongs to the model. The spec expects the username
  and the email to be unique, so saving a document that repeats one of a stored user is
  an error of the store, which the handler forwards.
\<close>

definition duplicate_key :: "user list \<Rightarrow> user \<Rightarrow> bool" where
  "duplicate_key us u =
     list_ex (\<lambda>v. uid v = uid u \<or> username v = username u \<or> email v = email u) us"

definition signup ::
  "oid \<Rightarrow> string \<Rightarrow> (string \<Rightarrow> string) \<Rightarrow> user_body option \<Rightarrow> store \<Rightarrow> reply \<times> store" where
  "signup nid dflt hash body s =
     (case body of
        None \<Rightarrow>
          (Json 400 (ErrorMessage ''You need to supply the user object with this request''), s)
      | Some b \<Rightarrow>
          if \<not> required_present b
          then (Json 400 (ErrorMessage ''Required form values need to be complete!''), s)
          else
            let user = signup_user nid dflt hash b in
            if duplicate_key (users s) user then (Next DuplicateKey, s)
            else (Json 200 (UserAuthJson user), s\<lparr>users := users s @ [user]\<rparr>))"

subsection \<open>Login\<close>

text \<open>
  What the callback of \<open>passport.authenticate\<close> receives: an error, no user (with
  \<open>info\<close>), or the user's document. The strategy is outside the sources, so its outcome is
  an input of the handler.
\<close>

datatype auth_result = AuthErr | AuthNoUser | AuthUser user

text \<open>
  \<open>user.suspension_timeline > Date.now()\<close>: the path holds a date or \<open>null\<close>, and
  \<open>null\<close> compares as 0.
\<close>

fun gt_now :: "int option \<Rightarrow> int \<Rightarrow> bool" where
  "gt_now None now = (0 > now)"
| "gt_now (Some t) now = (t > now)"

text \<open>
  Modelled from the spec: \<open>user_utils.unsuspend_user\<close> is not among the sources. It
  un-suspends the user with the given id: the flag is cleared and the timeline set to
  \<open>null\<close>, as the handler \<open>get\<close> writes them.
\<close>

definition unsuspend_user :: "oid \<Rightarrow> store \<Rightarrow> store" where
  "unsuspend_user i s =
     s\<lparr>users := update_user i (\<lambda>u. u\<lparr>suspended := False, suspension_timeline := None\<rparr>) (users s)\<rparr>"

definition login :: "int \<Rightarrow> user_body option \<Rightarrow> auth_result \<Rightarrow> store \<Rightarrow> reply \<times> store" where
  "login now body auth s =
     (case body of
        None \<Rightarrow>
          (Json 400 (ErrorMessage ''You need to supply the user object with this request''), s)
      | Some b \<Rightarrow>
          if \<not> present (b_email b) then (Json 422 (ErrorMessage ''Email can't be blank''), s)
          else if \<not> present (b_password b)
          then (Json 422 (ErrorMessage ''Password can't be blank''), s)
          else
            (case auth of
               AuthErr \<Rightarrow> (Next AuthFailure, s)
             | AuthNoUser \<Rightarrow> (Json 422 Info, s)
             | AuthUser user \<Rightarrow>
                 (Json 200 (UserAuthJson user),
                  if suspended user \<and> gt_now (suspension_timeline user) now
                  then unsuspend_user (uid user) s else s)))"

subsection \<open>Profile update\<close>

text \<open>
  \<open>findByIdAndUpdate(id, req.body.user, {new: true})\<close> writes the paths the body
  names. Of the body's fields the four profile texts are paths of the schema.
\<close>

definition apply_body :: "user_body \<Rightarrow> user \<Rightarrow> user" where
  "apply_body b u =
     u\<lparr> username := (case b_username b of None \<Rightarrow> username u | Some x \<Rightarrow> x),
        email := (case b_email b of None \<Rightarrow> email u | Some x \<Rightarrow> x),
        first_name := (case b_first_name b of None \<Rightarrow> first_name u | Some x \<Rightarrow> x),
        family_name := (case b_family_name b of None \<Rightarrow> family_name u | Some x \<Rightarrow> x) \<rparr>"

text \<open>
  A handler that has answered and answers again: the second \<open>res.json\<close> or
  \<open>res.sendStatus\<close> throws (the headers are sent), and the handler's \<open>catch\<close> forwards
  the error. The client has the first reply.
\<close>

definition respond :: "reply list \<Rightarrow> reply \<Rightarrow> reply list" where
  "respond sent r = (if sent = [] then [r] else sent @ [Next HeadersSent])"

text \<open>
  The guard of lines 127 to 133 answers 400 and does not return: the handler goes on to
  line 134.
\<close>

definition update :: "user_body option \<Rightarrow> oid \<Rightarrow> oid \<Rightarrow> store \<Rightarrow> reply list \<times> store" where
  "update body params_id payload_id s =
     (case body of
        None \<Rightarrow>
          ([Json 400 (ErrorMessage ''You need to supply the user object with this request'')], s)
      | Some b \<Rightarrow>
          (case findById (users s) params_id of
             None \<Rightarrow> ([Next TypeError], s)
           | Some request_user \<Rightarrow>
               let sent = (if uid request_user \<noteq> payload_id
                           then [Json 400 (ErrorMessage ''Cannot edit another user's profile!'')]
                           else []);
                   s' = s\<lparr>users := update_user payload_id (apply_body b) (users s)\<rparr>
               in (case findById (users s') payload_id of
                     None \<Rightarrow> (respond sent (SendStatus 401), s')
                   | Some user \<Rightarrow> (respond sent (Json 200 (UserAuthJson user)), s'))))"

subsection \<open>Follow and unfollow\<close>

text \<open>
  Modelled from the spec: the methods \<open>isFollowing\<close>, \<open>follow\<close>, \<open>unfollow\<close> and
  \<open>updateFollowerCount\<close> of the \<open>User\<close> model are not among the sources. By the spec,
  follow and unfollow mutate a relation on the acting user (its \<open>following\<close> set), and
  the count is stored on the target's document. Each method saves the paths it changed.
\<close>

definition User_isFollowing :: "user \<Rightarrow> oid \<Rightarrow> bool" where
  "User_isFollowing u i = (i \<in> set (following u))"

definition User_follow :: "user \<Rightarrow> user \<Rightarrow> store \<Rightarrow> store" where
  "User_follow u t s =
     s\<lparr>users := update_user (uid u) (\<lambda>d. d\<lparr>following := following u @ [uid t]\<rparr>) (users s)\<rparr>"

definition User_unfollow :: "user \<Rightarrow> user \<Rightarrow> store \<Rightarrow> store" where
  "User_unfollow u t s =
     s\<lparr>users := update_user (uid u)
                  (\<lambda>d. d\<lparr>following := removeAll (uid t) (following u)\<rparr>) (users s)\<rparr>"

definition User_updateFollowerCount :: "user \<Rightarrow> nat \<Rightarrow> store \<Rightarrow> store" where
  "User_updateFollowerCount t n s =
     s\<lparr>users := update_user (uid t) (\<lambda>d. d\<lparr>follower_count := n\<rparr>) (users s)\<rparr>"

text \<open>
  \<open>User.countDocuments({ followers: { $in: [user._id] } })\<close>: the number of user
  documents whose \<open>followers\<close> path holds the given id. Both handlers pass the acting
  user's id.
\<close>

definition countDocuments_followers :: "store \<Rightarrow> oid \<Rightarrow> nat" where
  "countDocuments_followers s i = length (filter (\<lambda>d. i \<in> set (followers d)) (users s))"

text \<open>The number of users who follow \<open>t\<close>: those whose \<open>following\<close> set holds \<open>t\<close>.\<close>

definition number_following :: "store \<Rightarrow> oid \<Rightarrow> nat" where
  "number_following s t = length (filter (\<lambda>d. t \<in> set (following d)) (users s))"

definition stored_follower_count :: "store \<Rightarrow> oid \<Rightarrow> nat option" where
  "stored_follower_count s t = map_option follower_count (findById (users s) t)"

definition follow :: "oid \<Rightarrow> oid \<Rightarrow> store \<Rightarrow> reply \<times> store" where
  "follow payload_id params_id s =
     (let user = findById (users s) payload_id;
          target_user = findById (users s) params_id
      in case user of
           None \<Rightarrow> (SendStatus 401, s)
         | Some u \<Rightarrow>
             (case target_user of
                None \<Rightarrow> (Next TypeError, s)
              | Some t \<Rightarrow>
                  if User_isFollowing u (uid t) then (Next AlreadyFollowing, s)
                  else
                    let s1 = User_follow u t s;
                        count = countDocuments_followers s1 (uid u);
                        s2 = User_updateFollowerCount t count s1
                    in (Json 200
                          (UserPairJson (u\<lparr>following := following u @ [uid t]\<rparr>)
                                        (t\<lparr>follower_count := count\<rparr>)), s2)))"

definition unfollow :: "oid \<Rightarrow> oid \<Rightarrow> store \<Rightarrow> reply \<times> store" where
  "unfollow payload_id params_id s =
     (let user = findById (users s) payload_id;
          target_user = findById (users s) params_id
      in case user of
           None \<Rightarrow> (SendStatus 401, s)
         | Some u \<Rightarrow>
             (case target_user of
                None \<Rightarrow> (Next TypeError, s)
              | Some t \<Rightarrow>
                  if \<not> User_isFollowing u (uid t) then (Next NotFollowing, s)
                  else
                    let s1 = User_unfollow u t s;
                        count = countDocuments_followers s1 (uid u);
                        s2 = User_updateFollowerCount t count s1
                    in (Json 200
                          (UserPairJson (u\<lparr>following := removeAll (uid t) (following u)\<rparr>)
                                        (t\<lparr>follower_count := count\<rparr>)), s2)))"

section \<open>The review service\<close>

text \<open>
  \<open>req.review\<close> as \<open>preloadReview\<close> leaves it: the review's document with its
  \<open>review_author\<close> path populated. \<open>populate\<close> puts \<open>null\<close> where the user's document
  is gone, and \<open>req.review.review_author._id\<close> then throws.
\<close>

record req_review =
  doc :: review
  populated_author :: "oid option"

definition preloadReview :: "store \<Rightarrow> oid \<Rightarrow> reply + req_review" where
  "preloadReview s i =
     (case find (\<lambda>r. rid r = i) (reviews s) of
        None \<Rightarrow> Inl (Json 404 (ErrorMessage ''The review you are looking for does not exist.''))
      | Some r \<Rightarrow>
          Inr \<lparr> doc = r,
                populated_author = map_option uid (findById (users s) (review_author r)) \<rparr>)"

subsection \<open>List\<close>

text \<open>
  \<open>req.query\<close>: each parameter a string or absent; \<open>limit\<close> and \<open>offset\<close> are read
  as numbers (\<open>+limit\<close>, \<open>+offset\<close>) and are naturals here.
\<close>

record list_params =
  limit :: "nat option"
  offset :: "nat option"
  q_tags :: "string option"
  q_author :: "string option"
  q_favorited :: "string option"

text \<open>The query object the handler builds: the keys \<open>tags\<close>, \<open>author\<close> and \<open>_id\<close>.\<close>

record review_query =
  query_tags :: "string option"
  query_author :: "oid option"
  query_id_in :: "oid list option"

definition findOne_username :: "user list \<Rightarrow> string \<Rightarrow> user option" where
  "findOne_username us n = find (\<lambda>u. username u = n) us"

text \<open>
  A review matches the query when it matches every key the query has. The reviews are
  created with the path \<open>review_author\<close>, the query's key is \<open>author\<close>: how the store
  matches that key is the parameter \<open>author_path\<close>.
\<close>

definition matches :: "(review \<Rightarrow> oid \<Rightarrow> bool) \<Rightarrow> review_query \<Rightarrow> review \<Rightarrow> bool" where
  "matches author_path q r =
     ((case query_tags q of None \<Rightarrow> True | Some t \<Rightarrow> t \<in> set (tags r))
      \<and> (case query_author q of None \<Rightarrow> True | Some a \<Rightarrow> author_path r a)
      \<and> (case query_id_in q of None \<Rightarrow> True | Some ids \<Rightarrow> rid r \<in> set ids))"

definition build_query :: "list_params \<Rightarrow> user option \<Rightarrow> user option \<Rightarrow> review_query" where
  "build_query p author favoriter =
     \<lparr> query_tags = q_tags p,
       query_author = map_option uid author,
       query_id_in =
         (case favoriter of
            Some f \<Rightarrow> Some (favorites f)
          | None \<Rightarrow> if present (q_favorited p) then Some [] else None) \<rparr>"

text \<open>
  \<open>find(query)\<close> sorted by \<open>createdAt\<close> descending, then \<open>skip\<close>, then \<open>limit\<close>; a
  limit of 0 and an absent limit do not limit.
\<close>

definition paginate :: "nat option \<Rightarrow> nat option \<Rightarrow> review list \<Rightarrow> review list" where
  "paginate lim off rs =
     (let skipped = drop (case off of None \<Rightarrow> 0 | Some k \<Rightarrow> k) rs
      in case lim of
           None \<Rightarrow> skipped
         | Some n \<Rightarrow> if n = 0 then skipped else take n skipped)"

definition find_reviews ::
  "(review \<Rightarrow> oid \<Rightarrow> bool) \<Rightarrow> review_query \<Rightarrow> nat option \<Rightarrow> nat option \<Rightarrow> review list
     \<Rightarrow> review list" where
  "find_reviews author_path q lim off rs =
     paginate lim off (sort_key (\<lambda>r. - createdAt r) (filter (matches author_path q) rs))"

definition count_reviews :: "(review \<Rightarrow> oid \<Rightarrow> bool) \<Rightarrow> review_query \<Rightarrow> review list \<Rightarrow> nat" where
  "count_reviews author_path q rs = length (filter (matches author_path q) rs)"

definition list_reviews ::
  "(review \<Rightarrow> oid \<Rightarrow> bool) \<Rightarrow> list_params \<Rightarrow> store \<Rightarrow> reply \<times> store" where
  "list_reviews author_path p s =
     (let author = (if present (q_author p)
                    then findOne_username (users s) (field_text (q_author p)) else None);
          favoriter = (if present (q_favorited p)
                       then findOne_username (users s) (field_text (q_favorited p)) else None);
          query = build_query p author favoriter;
          found = find_reviews author_path query (limit p) (offset p) (reviews s);
          reviewsCount = count_reviews author_path query (reviews s)
      in (Json 200 (ReviewListJson found reviewsCount), s))"

subsection \<open>Update and delete\<close>

record review_body =
  rb_content :: "string option"
  rb_tags :: "string list option"

text \<open>
  \<open>req.review.updateOne()\<close> is called with no argument; what it writes to the store is
  the parameter \<open>updateOne\<close>, given the review as changed in memory.
\<close>

definition review_update ::
  "(review \<Rightarrow> store \<Rightarrow> store) \<Rightarrow> int \<Rightarrow> review_body option \<Rightarrow> oid \<Rightarrow> req_review \<Rightarrow> store
     \<Rightarrow> reply \<times> store" where
  "review_update updateOne now body payload_id rq s =
     (case body of
        None \<Rightarrow>
          (Json 400 (ErrorMessage ''You need to send the review object with this request.''), s)
      | Some b \<Rightarrow>
          (case populated_author rq of
             None \<Rightarrow> (Next TypeError, s)
           | Some a \<Rightarrow>
               if a \<noteq> payload_id then (SendStatus 403, s)
               else
                 (case findById (users s) payload_id of
                    None \<Rightarrow> (Next TypeError, s)
                  | Some user \<Rightarrow>
                      if suspended user \<or> gt_now (suspension_timeline user) now
                      then (Json 400 (ErrorMessage ''Suspended users cannot make reviews!''), s)
                      else
                        let r = doc rq;
                            r = (case rb_content b of None \<Rightarrow> r | Some c \<Rightarrow> r\<lparr>content := c\<rparr>);
                            r = (case rb_tags b of None \<Rightarrow> r | Some ts \<Rightarrow> r\<lparr>tags := ts\<rparr>)
                        in (Json 200 (ReviewJson r), updateOne r s))))"

definition remove_review :: "oid \<Rightarrow> store \<Rightarrow> store" where
  "remove_review i s = s\<lparr>reviews := filter (\<lambda>r. rid r \<noteq> i) (reviews s)\<rparr>"

definition review_delete :: "oid \<Rightarrow> req_review \<Rightarrow> store \<Rightarrow> reply \<times> store" where
  "review_delete payload_id rq s =
     (case findById (users s) payload_id of
        None \<Rightarrow> (Json 400 (ErrorMessage ''The user you requested does not exist!''), s)
      | Some user \<Rightarrow>
          (case populated_author rq of
             None \<Rightarrow> (Next TypeError, s)
           | Some a \<Rightarrow>
               if a \<noteq> payload_id \<and> user_type user \<noteq> ''admin''
               then (Json 403 (ErrorMessage
                       ''You must either be review creator or an admin to delete this review''), s)
               else (SendStatus 204, remove_review (rid (doc rq)) s)))"

section \<open>The genre handlers\<close>

record genre_doc =
  gid :: oid
  name :: string

record book_doc =
  bid :: oid
  title :: string
  summary :: string
  genre :: "oid list"

record catalog =
  genres :: "genre_doc list"
  books :: "book_doc list"

text \<open>
  A handler renders a view (with the genre and the books it passes), redirects, or
  forwards the store's error to \<open>next\<close>.
\<close>

datatype page = Render string "genre_doc option" "book_doc list" | Redirect string | NextErr

text \<open>
  \<open>escape\<close> and \<open>trim\<close> of the validator library, which the handlers apply to
  \<open>req.body.name\<close> in that order: \<open>escape\<close> replaces the characters of HTML markup by
  entities, \<open>trim\<close> drops the white space at both ends.
\<close>

definition escape_char :: "char \<Rightarrow> string" where
  "escape_char c =
     (if c = CHR ''&'' then ''&amp;''
      else if c = CHR 0x22 then ''&quot;''
      else if c = CHR 0x27 then ''&#x27;''
      else if c = CHR ''<'' then ''&lt;''
      else if c = CHR ''>'' then ''&gt;''
      else if c = CHR ''/'' then ''&#x2F;''
      else if c = CHR 0x5C then ''&#x5C;''
      else if c = CHR 0x60 then ''&#96;''
      else [c])"

definition escape :: "string \<Rightarrow> string" where
  "escape s = concat (map escape_char s)"

definition is_space :: "char \<Rightarrow> bool" where
  "is_space c = (c \<in> set [CHR '' '', CHR 0x09, CHR 0x0A, CHR 0x0B, CHR 0x0C, CHR 0x0D])"

definition trim :: "string \<Rightarrow> string" where
  "trim s = rev (dropWhile is_space (rev (dropWhile is_space s)))"

definition escape_trim :: "string \<Rightarrow> string" where
  "escape_trim s = trim (escape s)"

text \<open>
  \<open>genre_create_post\<close>. \<open>checkBody('name').notEmpty()\<close> tests the name as sent (an
  absent name as the empty string); \<open>sanitize\<close> is \<open>escape\<close> then \<open>trim\<close> of the
  validator library and \<open>url\<close> the model's virtual, both parameters. \<open>find_err\<close> and
  \<open>save_err\<close> say whether the store fails the lookup and the save; \<open>nid\<close> is the fresh
  \<open>_id\<close> of the new document.
\<close>

definition genre_create_post ::
  "(genre_doc \<Rightarrow> string) \<Rightarrow> (string \<Rightarrow> string) \<Rightarrow> oid \<Rightarrow> bool \<Rightarrow> bool \<Rightarrow> string \<Rightarrow> catalog
     \<Rightarrow> page \<times> catalog" where
  "genre_create_post url sanitize nid find_err save_err body_name c =
     (let errors = (body_name = []);
          body_name = sanitize body_name;
          new_genre = \<lparr> gid = nid, name = body_name \<rparr>
      in if errors then (Render ''genre_form'' (Some new_genre) [], c)
         else if find_err then (NextErr, c)
         else
           (case find (\<lambda>g. name g = body_name) (genres c) of
              Some found_genre \<Rightarrow> (Redirect (url found_genre), c)
            | None \<Rightarrow>
                if save_err then (NextErr, c)
                else (Redirect (url new_genre), c\<lparr>genres := genres c @ [new_genre]\<rparr>)))"

text \<open>
  \<open>genre_delete_post\<close>. The result of \<open>checkBody('genreid')\<close> is never read. The
  books of the genre are those whose \<open>genre\<close> path holds the id.
\<close>

definition genre_books_of :: "catalog \<Rightarrow> oid \<Rightarrow> book_doc list" where
  "genre_books_of c i = filter (\<lambda>b. i \<in> set (genre b)) (books c)"

fun remove_genre :: "oid \<Rightarrow> genre_doc list \<Rightarrow> genre_doc list" where
  "remove_genre i [] = []"
| "remove_genre i (g # gs) = (if gid g = i then gs else g # remove_genre i gs)"

definition genre_delete_post :: "bool \<Rightarrow> bool \<Rightarrow> oid \<Rightarrow> catalog \<Rightarrow> page \<times> catalog" where
  "genre_delete_post find_err remove_err genreid c =
     (if find_err then (NextErr, c)
      else
        let found = find (\<lambda>g. gid g = genreid) (genres c);
            genre_books = genre_books_of c genreid
        in if length genre_books > 0 then (Render ''genre_delete'' found genre_books, c)
           else if remove_err then (NextErr, c)
           else (Redirect ''/catalog/genres'', c\<lparr>genres := remove_genre genreid (genres c)\<rparr>))"

section \<open>Sample requests and stores\<close>

text \<open>Concrete inputs on which the theorems below are evaluated.\<close>

definition sample_body :: "jsval \<Rightarrow> jsval \<Rightarrow> user_body" where
  "sample_body admin_flag mod_flag =
     \<lparr> b_username = Some ''ada'', b_password = Some ''secret'', b_email = Some ''ada@lib.org'',
       b_first_name = Some ''Ada'', b_family_name = Some ''Byron'',
       give_admin_priviledges = admin_flag, give_mod_priviledges = mod_flag \<rparr>"

definition sample_user :: "oid \<Rightarrow> string \<Rightarrow> user" where
  "sample_user i n =
     \<lparr> uid = i, username = n, email = n @ ''@lib.org'', first_name = n, family_name = ''Reader'',
       password_hash = ''x'', user_type = ''plain'', suspended = False,
       suspension_timeline = None, follower_count = 0, following = [], followers = [],
       favorites = [] \<rparr>"

definition empty_store :: store where
  "empty_store = \<lparr> users = [], reviews = [] \<rparr>"

definition two_users :: store where
  "two_users = \<lparr> users = [sample_user 1 ''alice'', sample_user 2 ''bob''], reviews = [] \<rparr>"

definition rename_body :: user_body where
  "rename_body =
     \<lparr> b_username = None, b_password = None, b_email = None,
       b_first_name = Some ''Mallory'', b_family_name = None,
       give_admin_priviledges = JUndefined, give_mod_priviledges = JUndefined \<rparr>"

definition login_body :: user_body where
  "login_body =
     \<lparr> b_username = None, b_password = Some ''secret'', b_email = Some ''alice@lib.org'',
       b_first_name = None, b_family_name = None,
       give_admin_priviledges = JUndefined, give_mod_priviledges = JUndefined \<rparr>"

definition suspended_until :: "int \<Rightarrow> user" where
  "suspended_until t =
     (sample_user 1 ''alice'')\<lparr>suspended := True, suspension_timeline := Some t\<rparr>"

definition suspended_store :: "int \<Rightarrow> store" where
  "suspended_store t = \<lparr> users = [suspended_until t], reviews = [] \<rparr>"

text \<open>Bob (2) follows Carol (3); Alice (1) follows nobody. Carol's stored count is 1.\<close>

definition three_users :: store where
  "three_users =
     \<lparr> users = [sample_user 1 ''alice'',
                (sample_user 2 ''bob'')\<lparr>following := [3]\<rparr>,
                (sample_user 3 ''carol'')\<lparr>follower_count := 1, followers := [2]\<rparr>],
       reviews = [] \<rparr>"

definition sample_review :: "oid \<Rightarrow> oid \<Rightarrow> review" where
  "sample_review i a =
     \<lparr> rid = i, content = ''A fine book'', tags = [''classic''], review_author = a, book = 7,
       favorite_count = 0, createdAt = int i \<rparr>"

text \<open>Alice (1) wrote review 10; Bob (2) is a plain user and Root (9) an admin.\<close>

definition review_store :: store where
  "review_store =
     \<lparr> users = [(sample_user 1 ''alice'')\<lparr>favorites := [10]\<rparr>, sample_user 2 ''bob'',
                (sample_user 9 ''root'')\<lparr>user_type := ''admin''\<rparr>],
       reviews = [sample_review 10 1, sample_review 11 2] \<rparr>"

definition alice_review :: req_review where
  "alice_review = \<lparr> doc = sample_review 10 1, populated_author = Some 1 \<rparr>"

definition edit_body :: review_body where
  "edit_body = \<lparr> rb_content = Some ''Rewritten'', rb_tags = None \<rparr>"

text \<open>One store effect for \<open>updateOne\<close>: the stored review replaced by the one in memory.\<close>

definition updateOne_replace :: "review \<Rightarrow> store \<Rightarrow> store" where
  "updateOne_replace r s = s\<lparr>reviews := map (\<lambda>d. if rid d = rid r then r else d) (reviews s)\<rparr>"

definition author_is :: "review \<Rightarrow> oid \<Rightarrow> bool" where
  "author_is r a = (review_author r = a)"

definition ghost_params :: list_params where
  "ghost_params =
     \<lparr> limit = Some 20, offset = None, q_tags = Some ''classic'', q_author = Some ''alice'',
       q_favorited = Some ''ghost'' \<rparr>"

definition genre_url :: "genre_doc \<Rightarrow> string" where
  "genre_url g = ''/catalog/genre/'' @ replicate (gid g) CHR ''i''"

definition fantasy_catalog :: "book_doc list \<Rightarrow> catalog" where
  "fantasy_catalog bs =
     \<lparr> genres = [\<lparr> gid = 1, name = ''Fantasy'' \<rparr>, \<lparr> gid = 2, name = ''Poetry'' \<rparr>], books = bs \<rparr>"

text \<open>A catalog whose one genre is named, character for character, \<open>R&amp;B\<close>.\<close>

definition rnb_catalog :: catalog where
  "rnb_catalog = \<lparr> genres = [\<lparr> gid = 1, name = ''R&amp;B'' \<rparr>], books = [] \<rparr>"

definition hobbit :: book_doc where
  "hobbit = \<lparr> bid = 5, title = ''The Hobbit'', summary = ''There and back'', genre = [1] \<rparr>"

section \<open>Signup: the user type follows the body's flags\<close>

lemma signup_user_type:
  "user_type (signup_user nid dflt hash b) =
     (if truthy (give_mod_priviledges b) then ''moderator''
      else if truthy (give_admin_priviledges b) then ''admin'' else dflt)"
  by (simp add: signup_user_def new_User_def setPassword_def Let_def)

lemma signup_complete:
  "required_present b \<Longrightarrow>
   signup nid dflt hash (Some b) s =
     (if duplicate_key (users s) (signup_user nid dflt hash b) then (Next DuplicateKey, s)
      else (Json 200 (UserAuthJson (signup_user nid dflt hash b)),
            s\<lparr>users := users s @ [signup_user nid dflt hash b]\<rparr>))"
  by (simp add: signup_def Let_def)

lemma sample_body_required: "required_present (sample_body a m)"
  by (simp add: required_present_def sample_body_def)

text \<open>
  Claim C1, as stated: with all required fields present, a body that sets
  \<open>give_admin_priviledges\<close> gives a saved user of type admin. It fails on a body that sets
  both flags: the saved user is a moderator.
\<close>

theorem signup_admin_flag_counterexample:
  "required_present (sample_body (JBool True) (JBool True))
   \<and> truthy (give_admin_priviledges (sample_body (JBool True) (JBool True)))
   \<and> map user_type (users (snd (signup 1 ''plain'' rev
        (Some (sample_body (JBool True) (JBool True))) empty_store))) \<noteq> [''admin'']"
  by (simp add: signup_def signup_user_def new_User_def setPassword_def Let_def
      duplicate_key_def empty_store_def sample_body_def required_present_def)

text \<open>
  Claim C1, amended: for every signup request whose body has all required fields, the
  handler checks nothing about the requester; unless the store refuses the save, it saves
  the user and answers with it, and the user's type is read from the body's flags alone:
  moderator when \<open>give_mod_priviledges\<close> is set, admin when \<open>give_admin_priviledges\<close>
  is set and \<open>give_mod_priviledges\<close> is not, the schema's default otherwise.
\<close>

theorem signup_user_type_from_flags:
  assumes "required_present b"
  shows "signup nid dflt hash (Some b) s =
           (if duplicate_key (users s) (signup_user nid dflt hash b) then (Next DuplicateKey, s)
            else (Json 200 (UserAuthJson (signup_user nid dflt hash b)),
                  s\<lparr>users := users s @ [signup_user nid dflt hash b]\<rparr>))
       \<and> user_type (signup_user nid dflt hash b) =
           (if truthy (give_mod_priviledges b) then ''moderator''
            else if truthy (give_admin_priviledges b) then ''admin'' else dflt)"
  using assms by (simp add: signup_user_type signup_complete)

theorem signup_user_type_from_flags_witness:
  "required_present (sample_body (JBool True) JUndefined)
   \<and> map user_type (users (snd (signup 1 ''plain'' rev
        (Some (sample_body (JBool True) JUndefined)) empty_store))) = [''admin'']"
proof -
  let ?b = "sample_body (JBool True) JUndefined"
  have r: "required_present ?b" by (rule sample_body_required)
  have f: "truthy (give_admin_priviledges ?b)" "\<not> truthy (give_mod_priviledges ?b)"
    by (simp_all add: sample_body_def)
  have d: "\<not> duplicate_key (users empty_store) (signup_user 1 ''plain'' rev ?b)"
    by (simp add: duplicate_key_def empty_store_def)
  from signup_user_type_from_flags [OF r, of 1 "''plain''" rev empty_store] d f
  have "map user_type (users (snd (signup 1 ''plain'' rev (Some ?b) empty_store))) = [''admin'']"
    by (simp add: empty_store_def)
  with r show ?thesis by simp
qed

text \<open>
  Claim C9: a signup request that sets both \<open>give_admin_priviledges\<close> and
  \<open>give_mod_priviledges\<close> (with the required fields present) creates a user of type
  moderator, the moderator flag being applied second; the handler saves that user unless
  the store refuses the save.
\<close>

theorem signup_both_flags_moderator:
  assumes "required_present b"
    and "truthy (give_admin_priviledges b)"
    and "truthy (give_mod_priviledges b)"
  shows "user_type (signup_user nid dflt hash b) = ''moderator''
       \<and> signup nid dflt hash (Some b) s =
           (if duplicate_key (users s) (signup_user nid dflt hash b) then (Next DuplicateKey, s)
            else (Json 200 (UserAuthJson (signup_user nid dflt hash b)),
                  s\<lparr>users := users s @ [signup_user nid dflt hash b]\<rparr>))"
  using assms by (simp add: signup_user_type signup_complete)

theorem signup_both_flags_moderator_witness:
  "required_present (sample_body (JBool True) (JBool True))
   \<and> truthy (give_admin_priviledges (sample_body (JBool True) (JBool True)))
   \<and> truthy (give_mod_priviledges (sample_body (JBool True) (JBool True)))
   \<and> map user_type (users (snd (signup 1 ''plain'' rev
        (Some (sample_body (JBool True) (JBool True))) empty_store))) = [''moderator'']"
proof -
  let ?b = "sample_body (JBool True) (JBool True)"
  have r: "required_present ?b" by (rule sample_body_required)
  have a: "truthy (give_admin_priviledges ?b)" by (simp add: sample_body_def)
  have m: "truthy (give_mod_priviledges ?b)" by (simp add: sample_body_def)
  have d: "\<not> duplicate_key (users empty_store) (signup_user 1 ''plain'' rev ?b)"
    by (simp add: duplicate_key_def empty_store_def)
  from signup_both_flags_moderator [OF r a m, of 1 "''plain''" rev empty_store] d
  have "map user_type (users (snd (signup 1 ''plain'' rev (Some ?b) empty_store))) = [''moderator'']"
    by (simp add: empty_store_def)
  with r a m show ?thesis by simp
qed

section \<open>Profile update: the guard that does not return\<close>

text \<open>
  Claim C2 says that a profile update whose authenticated user is not the user of the URL
  is answered with 400 and changes no user document. On the code the 400 is sent, and the
  handler then writes the body to the authenticated user's own document: Alice (1),
  addressing Bob (2), has her first name changed.
\<close>

theorem update_other_profile_writes:
  "fst (update (Some rename_body) 2 1 two_users) =
     [Json 400 (ErrorMessage ''Cannot edit another user's profile!''), Next HeadersSent]
   \<and> map first_name (users two_users) = [''alice'', ''bob'']
   \<and> map first_name (users (snd (update (Some rename_body) 2 1 two_users))) = [''Mallory'', ''bob'']"
  by (simp add: update_def two_users_def rename_body_def sample_user_def findById_def
      update_user_def apply_body_def respond_def Let_def)

section \<open>Login: which suspended users are un-suspended\<close>

text \<open>
  Claim C4 says that login un-suspends a suspended user exactly when the suspension
  timeline lies at or before the current time. On the code, at time 200, a user suspended
  until 100 stays suspended and a user suspended until 300 is un-suspended.
\<close>

theorem login_unsuspends_pending_only:
  "map suspended (users (snd (login 200 (Some login_body) (AuthUser (suspended_until 100))
       (suspended_store 100)))) = [True]
   \<and> map suspended (users (snd (login 200 (Some login_body) (AuthUser (suspended_until 300))
       (suspended_store 300)))) = [False]"
  by (simp add: login_def login_body_def suspended_until_def suspended_store_def sample_user_def
      unsuspend_user_def update_user_def)

section \<open>Follow and unfollow: the stored follower count\<close>

lemma findById_uid: "findById us i = Some u \<Longrightarrow> uid u = i"
  by (auto simp: findById_def find_Some_iff)

lemma findById_update_user:
  assumes "\<And>d. uid (f d) = uid d"
  shows "findById (update_user i f us) j =
           map_option (\<lambda>d. if uid d = i then f d else d) (findById us j)"
  using assms by (induction us) (auto simp: findById_def update_user_def)

lemma filter_followers_update_user:
  assumes "\<And>d. followers (f d) = followers d"
  shows "length (filter (\<lambda>d. j \<in> set (followers d)) (update_user i f us)) =
         length (filter (\<lambda>d. j \<in> set (followers d)) us)"
  using assms by (induction us) (auto simp: update_user_def)

lemma count_User_follow [simp]:
  "countDocuments_followers (User_follow u t s) j = countDocuments_followers s j"
  by (simp add: countDocuments_followers_def User_follow_def filter_followers_update_user)

lemma count_User_unfollow [simp]:
  "countDocuments_followers (User_unfollow u t s) j = countDocuments_followers s j"
  by (simp add: countDocuments_followers_def User_unfollow_def filter_followers_update_user)

lemma count_User_updateFollowerCount [simp]:
  "countDocuments_followers (User_updateFollowerCount t n s) j = countDocuments_followers s j"
  by (simp add: countDocuments_followers_def User_updateFollowerCount_def
      filter_followers_update_user)

lemma follow_success:
  assumes "findById (users s) a = Some u" and "findById (users s) b = Some t"
    and "\<not> User_isFollowing u b"
  shows "follow a b s =
           (Json 200 (UserPairJson (u\<lparr>following := following u @ [b]\<rparr>)
                                   (t\<lparr>follower_count := countDocuments_followers s a\<rparr>)),
            User_updateFollowerCount t (countDocuments_followers s a) (User_follow u t s))"
  using assms findById_uid [OF assms(1)] findById_uid [OF assms(2)]
  by (simp add: follow_def Let_def)

lemma unfollow_success:
  assumes "findById (users s) a = Some u" and "findById (users s) b = Some t"
    and "User_isFollowing u b"
  shows "unfollow a b s =
           (Json 200 (UserPairJson (u\<lparr>following := removeAll b (following u)\<rparr>)
                                   (t\<lparr>follower_count := countDocuments_followers s a\<rparr>)),
            User_updateFollowerCount t (countDocuments_followers s a) (User_unfollow u t s))"
  using assms findById_uid [OF assms(1)] findById_uid [OF assms(2)]
  by (simp add: unfollow_def Let_def)

lemma stored_after_update:
  assumes "findById (users s) b = Some x" and "uid t = b"
  shows "stored_follower_count (User_updateFollowerCount t n s) b = Some n"
proof -
  have "uid x = b" using assms(1) by (rule findById_uid)
  then show ?thesis using assms
    by (simp add: stored_follower_count_def User_updateFollowerCount_def findById_update_user)
qed

lemma findById_after_follow:
  assumes "findById (users s) a = Some u" and "findById (users s) b = Some t"
  shows "\<exists>u' t'. findById (users (User_updateFollowerCount t n (User_follow u t s))) a = Some u'
           \<and> findById (users (User_updateFollowerCount t n (User_follow u t s))) b = Some t'
           \<and> following u' = following u @ [b]"
  using assms findById_uid [OF assms(1)] findById_uid [OF assms(2)]
  by (simp add: User_updateFollowerCount_def User_follow_def findById_update_user)

text \<open>
  Claim C3 says that after a successful follow or unfollow the target's stored
  \<open>follower_count\<close> is the number of users who follow the target. On the code the count
  query is asked about the acting user's id in the \<open>followers\<close> path. After Alice (1)
  follows Bob (2) in a store where nobody followed anybody, Bob's stored count is 0 and one
  user follows him. After Alice follows Carol (3), whom Bob follows already, the stored
  count is 0 and two users follow Carol; after Bob unfollows Carol instead, the stored count
  is 1 and nobody follows her.
\<close>

theorem follow_stores_wrong_count:
  "status_of (fst (follow 1 2 two_users)) = Some 200
   \<and> stored_follower_count (snd (follow 1 2 two_users)) 2 = Some 0
   \<and> number_following (snd (follow 1 2 two_users)) 2 = 1
   \<and> status_of (fst (follow 1 3 three_users)) = Some 200
   \<and> stored_follower_count (snd (follow 1 3 three_users)) 3 = Some 0
   \<and> number_following (snd (follow 1 3 three_users)) 3 = 2
   \<and> status_of (fst (unfollow 2 3 three_users)) = Some 200
   \<and> stored_follower_count (snd (unfollow 2 3 three_users)) 3 = Some 1
   \<and> number_following (snd (unfollow 2 3 three_users)) 3 = 0"
  by (simp add: follow_def unfollow_def two_users_def three_users_def sample_user_def
      findById_def update_user_def User_isFollowing_def User_follow_def User_unfollow_def
      User_updateFollowerCount_def countDocuments_followers_def number_following_def
      stored_follower_count_def Let_def)

text \<open>
  Whatever the target's count was, a follow and the unfollow after it leave in it what the
  count query returns for the acting user.
\<close>

lemma follow_unfollow_stored_count:
  assumes "findById (users s) a = Some u" and "findById (users s) b = Some t"
    and "\<not> User_isFollowing u b"
  shows "status_of (fst (follow a b s)) = Some 200
       \<and> status_of (fst (unfollow a b (snd (follow a b s)))) = Some 200
       \<and> stored_follower_count (snd (unfollow a b (snd (follow a b s)))) b =
           Some (countDocuments_followers s a)"
proof -
  let ?c = "countDocuments_followers s a"
  let ?s1 = "User_updateFollowerCount t ?c (User_follow u t s)"
  have f: "follow a b s =
      (Json 200 (UserPairJson (u\<lparr>following := following u @ [b]\<rparr>) (t\<lparr>follower_count := ?c\<rparr>)), ?s1)"
    using assms(1-3) by (rule follow_success)
  obtain u' t' where u': "findById (users ?s1) a = Some u'"
    and t': "findById (users ?s1) b = Some t'" and fu: "following u' = following u @ [b]"
    using findById_after_follow [OF assms(1,2)] by blast
  have isf: "User_isFollowing u' b" by (simp add: User_isFollowing_def fu)
  have c1: "countDocuments_followers ?s1 a = ?c" by simp
  have g: "unfollow a b ?s1 =
      (Json 200 (UserPairJson (u'\<lparr>following := removeAll b (following u')\<rparr>)
                              (t'\<lparr>follower_count := ?c\<rparr>)),
       User_updateFollowerCount t' ?c (User_unfollow u' t' ?s1))"
    using unfollow_success [OF u' t' isf] c1 by simp
  obtain x where x: "findById (users (User_unfollow u' t' ?s1)) b = Some x"
    using t' by (simp add: User_unfollow_def findById_update_user)
  have "stored_follower_count (User_updateFollowerCount t' ?c (User_unfollow u' t' ?s1)) b = Some ?c"
    using x findById_uid [OF t'] by (rule stored_after_update)
  then show ?thesis using f g by simp
qed

text \<open>
  Claim C8 says that, for an acting user who does not follow the target, follow then
  unfollow returns the target's stored \<open>follower_count\<close> to the value it had before the
  follow. On the code, Carol (3) has one follower, Bob, and a stored count of 1; Alice (1)
  does not follow her. After Alice follows and then unfollows Carol, both requests being
  answered 200, Bob still follows Carol and her stored count is 0.
\<close>

theorem follow_unfollow_loses_count:
  "map following (users three_users) = [[], [3], []]
   \<and> stored_follower_count three_users 3 = Some 1
   \<and> number_following three_users 3 = 1
   \<and> status_of (fst (follow 1 3 three_users)) = Some 200
   \<and> status_of (fst (unfollow 1 3 (snd (follow 1 3 three_users)))) = Some 200
   \<and> stored_follower_count (snd (unfollow 1 3 (snd (follow 1 3 three_users)))) 3 = Some 0
   \<and> number_following (snd (unfollow 1 3 (snd (follow 1 3 three_users)))) 3 = 1"
  by (simp add: follow_def unfollow_def three_users_def sample_user_def
      findById_def update_user_def User_isFollowing_def User_follow_def User_unfollow_def
      User_updateFollowerCount_def countDocuments_followers_def number_following_def
      stored_follower_count_def Let_def)

section \<open>Genres: the delete guard\<close>

lemma genre_books_of_empty_iff:
  "(genre_books_of c i = []) = (\<not> (\<exists>b \<in> set (books c). i \<in> set (genre b)))"
  by (auto simp: genre_books_of_def filter_empty_conv)

text \<open>
  Claim C5: for every genre-delete POST request, if at least one book references the genre
  the delete is refused (the delete page is rendered again) and the store keeps the genre
  document, being unchanged; the store changes only when no book references the genre, and
  then, when the store does not fail, the genre's document is removed.
\<close>

theorem genre_delete_post_guard:
  shows "((\<exists>b \<in> set (books c). i \<in> set (genre b)) \<longrightarrow>
            snd (genre_delete_post find_err remove_err i c) = c
            \<and> (\<not> find_err \<longrightarrow>
                 fst (genre_delete_post find_err remove_err i c) =
                   Render ''genre_delete'' (find (\<lambda>g. gid g = i) (genres c)) (genre_books_of c i)))
       \<and> (snd (genre_delete_post find_err remove_err i c) \<noteq> c \<longrightarrow>
            \<not> (\<exists>b \<in> set (books c). i \<in> set (genre b)))
       \<and> (\<not> (\<exists>b \<in> set (books c). i \<in> set (genre b)) \<and> \<not> find_err \<and> \<not> remove_err \<longrightarrow>
            genre_delete_post find_err remove_err i c =
              (Redirect ''/catalog/genres'', c\<lparr>genres := remove_genre i (genres c)\<rparr>))"
  using genre_books_of_empty_iff [of c i]
  by (auto simp: genre_delete_post_def Let_def)

theorem genre_delete_post_guard_witness:
  "(\<exists>b \<in> set (books (fantasy_catalog [hobbit])). 1 \<in> set (genre b))
   \<and> genre_delete_post False False 1 (fantasy_catalog [hobbit]) =
       (Render ''genre_delete'' (Some \<lparr> gid = 1, name = ''Fantasy'' \<rparr>) [hobbit],
        fantasy_catalog [hobbit])
   \<and> snd (genre_delete_post False False 1 (fantasy_catalog [])) \<noteq> fantasy_catalog []
   \<and> \<not> (\<exists>b \<in> set (books (fantasy_catalog [])). 1 \<in> set (genre b))
   \<and> map gid (genres (snd (genre_delete_post False False 1 (fantasy_catalog [])))) = [2]"
proof -
  have h: "\<exists>b \<in> set (books (fantasy_catalog [hobbit])). 1 \<in> set (genre b)"
    by (simp add: fantasy_catalog_def hobbit_def)
  have e: "\<not> (\<exists>b \<in> set (books (fantasy_catalog [])). 1 \<in> set (genre b))"
    by (simp add: fantasy_catalog_def)
  have f: "find (\<lambda>g. gid g = 1) (genres (fantasy_catalog [hobbit])) = Some \<lparr> gid = 1, name = ''Fantasy'' \<rparr>"
    by (simp add: fantasy_catalog_def)
  have b: "genre_books_of (fantasy_catalog [hobbit]) 1 = [hobbit]"
    by (simp add: genre_books_of_def fantasy_catalog_def hobbit_def)
  note T1 = genre_delete_post_guard [of "fantasy_catalog [hobbit]" 1 False False]
  note T2 = genre_delete_post_guard [of "fantasy_catalog []" 1 False False]
  from T1 have "(\<exists>b \<in> set (books (fantasy_catalog [hobbit])). 1 \<in> set (genre b)) \<longrightarrow>
            snd (genre_delete_post False False 1 (fantasy_catalog [hobbit])) = fantasy_catalog [hobbit]
            \<and> (\<not> False \<longrightarrow>
                 fst (genre_delete_post False False 1 (fantasy_catalog [hobbit])) =
                   Render ''genre_delete'' (find (\<lambda>g. gid g = 1) (genres (fantasy_catalog [hobbit])))
                     (genre_books_of (fantasy_catalog [hobbit]) 1))"
    by (rule conjunct1)
  with h have "snd (genre_delete_post False False 1 (fantasy_catalog [hobbit])) = fantasy_catalog [hobbit]
      \<and> fst (genre_delete_post False False 1 (fantasy_catalog [hobbit])) =
                   Render ''genre_delete'' (find (\<lambda>g. gid g = 1) (genres (fantasy_catalog [hobbit])))
                     (genre_books_of (fantasy_catalog [hobbit]) 1)"
    by blast
  then have 1: "genre_delete_post False False 1 (fantasy_catalog [hobbit]) =
       (Render ''genre_delete'' (Some \<lparr> gid = 1, name = ''Fantasy'' \<rparr>) [hobbit],
        fantasy_catalog [hobbit])"
    unfolding f b by (simp only: prod_eq_iff fst_conv snd_conv)
  from T2 e have 2: "genre_delete_post False False 1 (fantasy_catalog []) =
       (Redirect ''/catalog/genres'',
        (fantasy_catalog [])\<lparr>genres := remove_genre 1 (genres (fantasy_catalog []))\<rparr>)"
    by blast
  have 3: "snd (genre_delete_post False False 1 (fantasy_catalog [])) \<noteq> fantasy_catalog []"
    unfolding 2 by (simp add: fantasy_catalog_def)
  have 4: "map gid (genres (snd (genre_delete_post False False 1 (fantasy_catalog [])))) = [2]"
    unfolding 2 by (simp add: fantasy_catalog_def)
  from h 1 3 e 4 show ?thesis by blast
qed

section \<open>Reviews: listing by a favoriter nobody is\<close>

lemma build_query_unknown_favoriter:
  "present (q_favorited p) \<Longrightarrow> query_id_in (build_query p author None) = Some []"
  by (simp add: build_query_def)

lemma matches_no_ids: "query_id_in q = Some [] \<Longrightarrow> \<not> matches author_path q r"
  by (simp add: matches_def)

lemma filter_matches_no_ids:
  "query_id_in q = Some [] \<Longrightarrow> filter (matches author_path q) rs = []"
  by (simp add: matches_no_ids)

lemma paginate_Nil: "paginate lim off [] = []"
  by (simp add: paginate_def split: option.splits)

text \<open>
  Claim C7: for every review list request whose \<open>favorited\<close> parameter names a username
  (a non-empty string) that no stored user has, the response holds an empty reviews array
  and a \<open>reviewsCount\<close> of zero, whatever the tags and author filters and the pagination.
\<close>

theorem list_unknown_favoriter_empty:
  assumes "q_favorited p = Some n" and "n \<noteq> []"
    and "findOne_username (users s) n = None"
  shows "list_reviews author_path p s = (Json 200 (ReviewListJson [] 0), s)"
proof -
  have pr: "present (q_favorited p)" using assms(1,2) by simp
  have fav: "(if present (q_favorited p)
              then findOne_username (users s) (field_text (q_favorited p)) else None) = None"
    using assms by simp
  have "\<And>author. query_id_in (build_query p author None) = Some []"
    using pr by (rule build_query_unknown_favoriter)
  then have "\<And>author. filter (matches author_path (build_query p author None)) (reviews s) = []"
    by (rule filter_matches_no_ids)
  then show ?thesis
    unfolding list_reviews_def Let_def fav
    by (simp add: find_reviews_def count_reviews_def paginate_Nil)
qed

theorem list_unknown_favoriter_empty_witness:
  "q_favorited ghost_params = Some ''ghost''
   \<and> findOne_username (users review_store) ''ghost'' = None
   \<and> q_author ghost_params = Some ''alice''
   \<and> length (reviews review_store) = 2
   \<and> list_reviews author_is ghost_params review_store = (Json 200 (ReviewListJson [] 0), review_store)"
proof -
  have a: "q_favorited ghost_params = Some ''ghost''" by (simp add: ghost_params_def)
  have b: "''ghost'' \<noteq> []" by simp
  have c: "findOne_username (users review_store) ''ghost'' = None"
    by (simp add: findOne_username_def review_store_def sample_user_def)
  have d: "q_author ghost_params = Some ''alice''" by (simp add: ghost_params_def)
  have e: "length (reviews review_store) = 2" by (simp add: review_store_def)
  from list_unknown_favoriter_empty [OF a b c, of author_is] a c d e show ?thesis by simp
qed

section \<open>Reviews: who may update and delete\<close>

lemma preloadReview_alice: "preloadReview review_store 10 = Inr alice_review"
  by (simp add: preloadReview_def review_store_def alice_review_def sample_review_def
      sample_user_def findById_def)

text \<open>
  Claim C6, as stated: an admin who is not the review's author is permitted to update it.
  It fails: Root (9), an admin, updating Alice's review is answered 403 and the store is
  unchanged.
\<close>

theorem review_update_admin_counterexample:
  "map_option user_type (findById (users review_store) 9) = Some ''admin''
   \<and> populated_author alice_review = Some 1
   \<and> review_update updateOne_replace 0 (Some edit_body) 9 alice_review review_store =
       (SendStatus 403, review_store)"
  by (simp add: review_update_def review_store_def alice_review_def findById_def sample_user_def)

text \<open>
  Claim C6, amended: where the review's author is still stored, an update request that
  carries a review object and comes from anyone but the author, admin or not, is answered
  403 and the store is unchanged; a delete request from a stored user who is neither the
  author nor an admin is answered 403 and the store is unchanged; a delete request from an
  admin who is not the author is answered 204 and the review is removed.
\<close>

theorem review_update_delete_guard:
  shows "(populated_author rq = Some a \<and> a \<noteq> payload_id \<longrightarrow>
            review_update updateOne now (Some b) payload_id rq s = (SendStatus 403, s))
       \<and> (findById (users s) payload_id = Some user \<and> populated_author rq = Some a
            \<and> a \<noteq> payload_id \<and> user_type user \<noteq> ''admin'' \<longrightarrow>
            review_delete payload_id rq s =
              (Json 403 (ErrorMessage
                 ''You must either be review creator or an admin to delete this review''), s))
       \<and> (findById (users s) payload_id = Some user \<and> populated_author rq = Some a
            \<and> a \<noteq> payload_id \<and> user_type user = ''admin'' \<longrightarrow>
            review_delete payload_id rq s =
              (SendStatus 204, s\<lparr>reviews := filter (\<lambda>r. rid r \<noteq> rid (doc rq)) (reviews s)\<rparr>))"
  by (simp add: review_update_def review_delete_def remove_review_def)

theorem review_update_delete_guard_witness:
  "populated_author alice_review = Some 1
   \<and> review_update updateOne_replace 0 (Some edit_body) 2 alice_review review_store =
       (SendStatus 403, review_store)
   \<and> map_option user_type (findById (users review_store) 2) = Some ''plain''
   \<and> status_of (fst (review_delete 2 alice_review review_store)) = Some 403
   \<and> snd (review_delete 2 alice_review review_store) = review_store
   \<and> map_option user_type (findById (users review_store) 9) = Some ''admin''
   \<and> status_of (fst (review_delete 9 alice_review review_store)) = Some 204
   \<and> map rid (reviews (snd (review_delete 9 alice_review review_store))) = [11]"
proof -
  let ?bob = "sample_user 2 ''bob''"
  let ?root = "(sample_user 9 ''root'')\<lparr>user_type := ''admin''\<rparr>"
  have pa: "populated_author alice_review = Some 1" by (simp add: alice_review_def)
  have fb: "findById (users review_store) 2 = Some ?bob"
    by (simp add: findById_def review_store_def sample_user_def)
  have fr: "findById (users review_store) 9 = Some ?root"
    by (simp add: findById_def review_store_def sample_user_def)
  have tb: "user_type ?bob \<noteq> ''admin''" by (simp add: sample_user_def)
  have tr: "user_type ?root = ''admin''" by simp
  have rs: "map rid (filter (\<lambda>r. rid r \<noteq> rid (doc alice_review)) (reviews review_store)) = [11]"
    by (simp add: alice_review_def review_store_def sample_review_def)
  note U = review_update_delete_guard
    [of alice_review 1 2 updateOne_replace 0 edit_body review_store ?bob]
  note D = review_update_delete_guard
    [of alice_review 1 9 updateOne_replace 0 edit_body review_store ?root]
  have 1: "review_update updateOne_replace 0 (Some edit_body) 2 alice_review review_store =
       (SendStatus 403, review_store)"
    using U [THEN conjunct1] pa by simp
  have 2: "review_delete 2 alice_review review_store =
       (Json 403 (ErrorMessage
          ''You must either be review creator or an admin to delete this review''), review_store)"
    using U [THEN conjunct2, THEN conjunct1] pa fb tb by simp
  have 3: "review_delete 9 alice_review review_store =
       (SendStatus 204,
        review_store\<lparr>reviews := filter (\<lambda>r. rid r \<noteq> rid (doc alice_review)) (reviews review_store)\<rparr>)"
    using D [THEN conjunct2, THEN conjunct2] pa fr tr by simp
  show ?thesis
    unfolding 1 2 3 using pa fb fr rs by (simp add: sample_user_def)
qed

section \<open>Genres: creating a genre whose name exists\<close>

lemma find_name_None_iff:
  "(find (\<lambda>g. name g = n) gs = None) = (\<not> (\<exists>g \<in> set gs. name g = n))"
  by (auto simp: find_None_iff)

lemma escape_trim_samples:
  "escape_trim ''R&amp;B'' = ''R&amp;amp;B''"
  "escape_trim '' R&B'' = ''R&amp;B''"
  "escape_trim ''Jazz'' = ''Jazz''"
  by (simp_all add: escape_trim_def trim_def escape_def escape_char_def is_space_def)

text \<open>
  Claim C10, as stated: for a request with a non-empty name, if a genre with that exact
  name exists then no new genre document is saved. It fails: the store holds a genre named
  \<open>R&amp;B\<close>, the request's name is \<open>R&amp;B\<close>, the handler escapes it before the
  lookup, finds nothing, and saves a second genre, named \<open>R&amp;amp;B\<close>.
\<close>

theorem genre_create_post_exact_name_counterexample:
  "map name (genres rnb_catalog) = [''R&amp;B'']
   \<and> genre_create_post genre_url escape_trim 3 False False ''R&amp;B'' rnb_catalog =
       (Redirect ''/catalog/genre/iii'',
        \<lparr> genres = [\<lparr> gid = 1, name = ''R&amp;B'' \<rparr>, \<lparr> gid = 3, name = ''R&amp;amp;B'' \<rparr>],
          books = [] \<rparr>)"
  by (simp add: genre_create_post_def rnb_catalog_def genre_url_def Let_def
      escape_trim_def trim_def escape_def escape_char_def is_space_def numeral_3_eq_3)

text \<open>
  Claim C10, amended: for every genre-create POST request with a non-empty name, if a
  genre exists whose name is the request's name as the handler has escaped and trimmed it,
  then no genre document is saved and (the lookup succeeding) the response redirects to the
  URL of the genre found; the store changes only when no genre has the escaped and trimmed
  name, and then, when the store does not fail, the new genre is saved under that name.
  The statement holds for any sanitizer in the place of escape and trim.
\<close>

theorem genre_create_post_existing:
  assumes "body_name \<noteq> []"
  shows "(find (\<lambda>g. name g = sanitize body_name) (genres c) = Some found \<and> \<not> find_err \<longrightarrow>
            genre_create_post url sanitize nid find_err save_err body_name c =
              (Redirect (url found), c))
       \<and> ((\<exists>g \<in> set (genres c). name g = sanitize body_name) \<longrightarrow>
            snd (genre_create_post url sanitize nid find_err save_err body_name c) = c)
       \<and> (snd (genre_create_post url sanitize nid find_err save_err body_name c) \<noteq> c \<longrightarrow>
            \<not> (\<exists>g \<in> set (genres c). name g = sanitize body_name))
       \<and> (\<not> (\<exists>g \<in> set (genres c). name g = sanitize body_name) \<and> \<not> find_err \<and> \<not> save_err \<longrightarrow>
            genre_create_post url sanitize nid find_err save_err body_name c =
              (Redirect (url \<lparr> gid = nid, name = sanitize body_name \<rparr>),
               c\<lparr>genres := genres c @ [\<lparr> gid = nid, name = sanitize body_name \<rparr>]\<rparr>))"
proof (cases "find (\<lambda>g. name g = sanitize body_name) (genres c)")
  case None
  then have "\<not> (\<exists>g \<in> set (genres c). name g = sanitize body_name)"
    by (simp add: find_name_None_iff)
  then show ?thesis using assms None
    by (simp add: genre_create_post_def Let_def)
next
  case (Some g)
  then have "\<exists>g \<in> set (genres c). name g = sanitize body_name"
    using find_name_None_iff [of "sanitize body_name" "genres c"] by simp
  then show ?thesis using assms Some
    by (simp add: genre_create_post_def Let_def)
qed

theorem genre_create_post_existing_witness:
  "'' R&B'' \<noteq> []
   \<and> find (\<lambda>g. name g = escape_trim '' R&B'') (genres rnb_catalog) =
       Some \<lparr> gid = 1, name = ''R&amp;B'' \<rparr>
   \<and> genre_create_post genre_url escape_trim 3 False False '' R&B'' rnb_catalog =
       (Redirect ''/catalog/genre/i'', rnb_catalog)
   \<and> \<not> (\<exists>g \<in> set (genres rnb_catalog). name g = escape_trim ''Jazz'')
   \<and> map name (genres (snd (genre_create_post genre_url escape_trim 3 False False ''Jazz''
        rnb_catalog))) = [''R&amp;B'', ''Jazz'']"
proof -
  have n1: "'' R&B'' \<noteq> []" and n2: "''Jazz'' \<noteq> []" by simp_all
  have f: "find (\<lambda>g. name g = escape_trim '' R&B'') (genres rnb_catalog) =
       Some \<lparr> gid = 1, name = ''R&amp;B'' \<rparr>"
    by (simp add: rnb_catalog_def escape_trim_samples)
  have u: "genre_url \<lparr> gid = 1, name = ''R&amp;B'' \<rparr> = ''/catalog/genre/i''"
    by (simp add: genre_url_def)
  have h: "\<not> (\<exists>g \<in> set (genres rnb_catalog). name g = escape_trim ''Jazz'')"
    by (simp add: rnb_catalog_def escape_trim_samples)
  have 1: "genre_create_post genre_url escape_trim 3 False False '' R&B'' rnb_catalog =
       (Redirect ''/catalog/genre/i'', rnb_catalog)"
    using genre_create_post_existing [OF n1, of escape_trim rnb_catalog
        "\<lparr> gid = 1, name = ''R&amp;B'' \<rparr>" False genre_url 3 False, THEN conjunct1] f u
    by simp
  have 2: "genre_create_post genre_url escape_trim 3 False False ''Jazz'' rnb_catalog =
       (Redirect (genre_url \<lparr> gid = 3, name = escape_trim ''Jazz'' \<rparr>),
        rnb_catalog\<lparr>genres := genres rnb_catalog @ [\<lparr> gid = 3, name = escape_trim ''Jazz'' \<rparr>]\<rparr>)"
    using genre_create_post_existing [OF n2, of escape_trim rnb_catalog
        "\<lparr> gid = 1, name = ''R&amp;B'' \<rparr>" False genre_url 3 False,
        THEN conjunct2, THEN conjunct2, THEN conjunct2] h
    by blast
  have 3: "map name (genres (snd (genre_create_post genre_url escape_trim 3 False False ''Jazz''
        rnb_catalog))) = [''R&amp;B'', ''Jazz'']"
    unfolding 2 by (simp add: rnb_catalog_def escape_trim_samples)
  from n1 f 1 h 3 show ?thesis by blast
qed

end
